theory Spec2Isabelle
  imports
    Complex_Main
    "HOL-Library.Multiset"
    "HOL-Library.Char_ord"
    "HOL-Library.List_Lexorder"
    "HOL-Library.Product_Lexorder"
begin

section \<open>Numbers of a pandas float column\<close>

text \<open>
  A cell of a float64 column is a finite number, an infinity or NaN; NaN is also how
  pandas stores a missing number. Finite values are kept exact (rationals): rounding and
  the sign of zero are left out, the special values are not, since the backtest divides
  by a column that may hold zero. The arithmetic below is that of numpy on such cells:
  no operation raises, a division by zero gives an infinity or NaN.
\<close>

datatype fl = Fin rat | PInf | NInf | NaN

fun isna :: "fl \<Rightarrow> bool" where
  "isna NaN = True"
| "isna _ = False"

fun fneg :: "fl \<Rightarrow> fl" where
  "fneg (Fin a) = Fin (- a)"
| "fneg PInf = NInf"
| "fneg NInf = PInf"
| "fneg NaN = NaN"

fun fadd :: "fl \<Rightarrow> fl \<Rightarrow> fl" where
  "fadd (Fin a) (Fin b) = Fin (a + b)"
| "fadd NaN _ = NaN"
| "fadd _ NaN = NaN"
| "fadd PInf NInf = NaN"
| "fadd NInf PInf = NaN"
| "fadd PInf _ = PInf"
| "fadd NInf _ = NInf"
| "fadd _ PInf = PInf"
| "fadd _ NInf = NInf"

definition fsub :: "fl \<Rightarrow> fl \<Rightarrow> fl" where
  "fsub x y = fadd x (fneg y)"

definition inf_signed :: "bool \<Rightarrow> fl" where
  "inf_signed positive = (if positive then PInf else NInf)"

fun fmul :: "fl \<Rightarrow> fl \<Rightarrow> fl" where
  "fmul (Fin a) (Fin b) = Fin (a * b)"
| "fmul NaN _ = NaN"
| "fmul _ NaN = NaN"
| "fmul (Fin a) PInf = (if a = 0 then NaN else inf_signed (0 < a))"
| "fmul (Fin a) NInf = (if a = 0 then NaN else inf_signed (a < 0))"
| "fmul PInf (Fin b) = (if b = 0 then NaN else inf_signed (0 < b))"
| "fmul NInf (Fin b) = (if b = 0 then NaN else inf_signed (b < 0))"
| "fmul PInf PInf = PInf"
| "fmul NInf NInf = PInf"
| "fmul PInf NInf = NInf"
| "fmul NInf PInf = NInf"

fun fdiv :: "fl \<Rightarrow> fl \<Rightarrow> fl" where
  "fdiv (Fin a) (Fin b) =
     (if b = 0 then (if a = 0 then NaN else inf_signed (0 < a)) else Fin (a / b))"
| "fdiv NaN _ = NaN"
| "fdiv _ NaN = NaN"
| "fdiv (Fin a) PInf = Fin 0"
| "fdiv (Fin a) NInf = Fin 0"
| "fdiv PInf (Fin b) = inf_signed (0 \<le> b)"
| "fdiv NInf (Fin b) = inf_signed (b < 0)"
| "fdiv PInf PInf = NaN"
| "fdiv PInf NInf = NaN"
| "fdiv NInf PInf = NaN"
| "fdiv NInf NInf = NaN"

text \<open>Comparisons: every comparison with NaN is false.\<close>

fun fle :: "fl \<Rightarrow> fl \<Rightarrow> bool" where
  "fle (Fin a) (Fin b) = (a \<le> b)"
| "fle NaN _ = False"
| "fle _ NaN = False"
| "fle NInf _ = True"
| "fle _ PInf = True"
| "fle PInf _ = False"
| "fle _ NInf = False"

definition fge :: "fl \<Rightarrow> fl \<Rightarrow> bool" where
  "fge x y = fle y x"

definition fgt :: "fl \<Rightarrow> fl \<Rightarrow> bool" where
  "fgt x y = (fle y x \<and> x \<noteq> y)"

section \<open>Tables\<close>

text \<open>
  A timestamp counts nanoseconds since 1970-01-01T00:00, as datetime64[ns] does; a missing
  timestamp (NaT) is \<open>None\<close>. A row carries the columns that the two programs read by
  name and the rest of its cells in \<open>other\<close>. The type of the date cell is a parameter: a
  cell as a spreadsheet holds it, a timestamp that may be missing (the tables of the
  viewer), or a timestamp (the tables of the collector, whose dates are trading days).
  A table lists its column names and its rows; the field of a column that the table does
  not list is never read.
\<close>

type_synonym timestamp = int

record ('d, 'a) cells =
  date :: 'd
  year :: "int option"
  d0_close :: fl
  d1_open :: fl
  other :: 'a

record ('d, 'a) sheet =
  columns :: "string list"
  rows :: "('d, 'a) cells list"

type_synonym 'a row = "(timestamp option, 'a) cells"

type_synonym 'a frame = "(timestamp option, 'a) sheet"

definition empty_frame :: "'a frame \<Rightarrow> bool" where
  \<comment> \<open>DataFrame.empty: some axis has length zero\<close>
  "empty_frame df = (rows df = [] \<or> columns df = [])"

definition sort_values :: "('r \<Rightarrow> timestamp option) \<Rightarrow> 'r list \<Rightarrow> 'r list" where
  \<comment> \<open>sort_values("date"): ascending, rows without a date last (na_position="last").
      Rows of one date keep their order here; pandas' default sort does not promise it.\<close>
  "sort_values key rs =
     sort_key (\<lambda>r. the (key r)) (filter (\<lambda>r. key r \<noteq> None) rs) @ filter (\<lambda>r. key r = None) rs"

section \<open>The backtest (app.py, backtest_next_open)\<close>

definition required_cols :: "string set" where
  "required_cols = {''d0_close'', ''d+1_open'', ''date''}"

definition dropna :: "'a row list \<Rightarrow> 'a row list" where
  \<comment> \<open>dropna(subset=["d0_close", "d+1_open", "date"]): a row goes when any of the three is missing\<close>
  "dropna rs = filter (\<lambda>r. \<not> isna (d0_close r) \<and> \<not> isna (d1_open r) \<and> date r \<noteq> None) rs"

text \<open>
  \<open>Series.clip(lower, upper)\<close> with two scalar thresholds: pandas first orders the
  thresholds (\<open>lower, upper = min(lower, upper), max(lower, upper)\<close> in \<open>NDFrame.clip\<close>),
  then keeps each value that is missing or at least the lower one and puts the lower one
  elsewhere, and likewise for the upper one.
\<close>

definition clip :: "fl \<Rightarrow> rat \<Rightarrow> rat \<Rightarrow> fl" where
  "clip x lower upper =
     (let lo = min lower upper; hi = max lower upper;
          result = (if isna x \<or> fge x (Fin lo) then x else Fin lo)
      in if isna x \<or> fle x (Fin hi) then result else Fin hi)"

text \<open>
  \<open>work\<close> is the table after \<open>dropna\<close> with the three columns the function adds to it,
  before the sort.
\<close>

record 'a work_row =
  base :: "'a row"
  raw_ret :: fl
  clipped_ret :: fl
  net_ret :: fl

definition net_of :: "rat \<Rightarrow> fl \<Rightarrow> fl" where
  \<comment> \<open>(1 + clipped_ret) * (1 - fee) - 1, for one cell of the column\<close>
  "net_of fee c = fsub (fmul (fadd (Fin 1) c) (Fin (1 - fee))) (Fin 1)"

definition add_returns :: "rat \<Rightarrow> rat \<Rightarrow> rat \<Rightarrow> 'a row \<Rightarrow> 'a work_row" where
  "add_returns upper_pct lower_pct fee_pct r =
     (let raw = fsub (fdiv (d1_open r) (d0_close r)) (Fin 1);
          up = upper_pct / 100;
          down = lower_pct / 100;
          clipped = clip raw down up;
          fee = fee_pct / 100;
          net = net_of fee clipped
      in \<lparr>base = r, raw_ret = raw, clipped_ret = clipped, net_ret = net\<rparr>)"

definition work :: "'a frame \<Rightarrow> rat \<Rightarrow> rat \<Rightarrow> rat \<Rightarrow> 'a work_row list" where
  \<comment> \<open>the rows of \<open>work\<close> after \<open>sort_values("date")\<close>\<close>
  "work df upper_pct lower_pct fee_pct =
     sort_values (\<lambda>w. date (base w)) (map (add_returns upper_pct lower_pct fee_pct) (dropna (rows df)))"

text \<open>
  \<open>cumprod\<close> skips missing values: the running product goes on from the last value that
  was not missing, and the result is missing where the input is.
\<close>

fun cumprod_from :: "fl \<Rightarrow> fl list \<Rightarrow> fl list" where
  "cumprod_from acc [] = []"
| "cumprod_from acc (x # xs) =
     (if isna x then NaN # cumprod_from acc xs
      else fmul acc x # cumprod_from (fmul acc x) xs)"

definition cumprod :: "fl list \<Rightarrow> fl list" where
  "cumprod xs = cumprod_from (Fin 1) xs"

definition equity :: "int \<Rightarrow> 'a work_row list \<Rightarrow> fl list" where
  \<comment> \<open>capital * (1 + work["net_ret"]).cumprod()\<close>
  "equity capital ws =
     map (\<lambda>p. fmul (Fin (of_int capital)) p) (cumprod (map (\<lambda>w. fadd (Fin 1) (net_ret w)) ws))"

definition mean :: "fl list \<Rightarrow> fl" where
  \<comment> \<open>Series.mean: over the values that are not missing, NaN when there is none\<close>
  "mean xs =
     (let ys = filter (\<lambda>x. \<not> isna x) xs
      in if ys = [] then NaN else fdiv (foldl fadd (Fin 0) ys) (Fin (of_nat (length ys))))"

record stats =
  n_trades :: nat
  wins :: nat
  win_rate :: fl
  avg_ret :: fl
  total_ret :: fl
  final_equity :: fl
  equity_series :: "(timestamp option \<times> fl) list"

text \<open>
  The two failure reasons; the source returns each as a message text
  (the first one names the missing columns).
\<close>

datatype reason = Missing_columns "string set" | No_valid_rows

text \<open>
  The function returns the pair (stats, reason) of the source, \<open>None\<close> for Python's None.
  The parameters are Python floats that the number inputs of the page deliver: finite.
\<close>

definition backtest_next_open ::
  "'a frame \<Rightarrow> rat \<Rightarrow> rat \<Rightarrow> rat \<Rightarrow> int \<Rightarrow> stats option \<times> reason option" where
  "backtest_next_open df upper_pct lower_pct fee_pct capital =
     (if \<not> required_cols \<subseteq> set (columns df)
      then (None, Some (Missing_columns (required_cols - set (columns df))))
      else if empty_frame \<lparr>columns = columns df, rows = dropna (rows df)\<rparr>
      then (None, Some No_valid_rows)
      else
        let ws = work df upper_pct lower_pct fee_pct;
            eq = equity capital ws;
            n = length ws;
            w = length (filter (\<lambda>x. fgt x (Fin 0)) (map net_ret ws))
        in (Some \<lparr>
              n_trades = n,
              wins = w,
              win_rate = (if n > 0 then fmul (fdiv (Fin (of_nat w)) (Fin (of_nat n))) (Fin 100)
                          else Fin 0),
              avg_ret = (if n > 0 then fmul (mean (map net_ret ws)) (Fin 100) else Fin 0),
              total_ret = (if n > 0
                           then fmul (fsub (fdiv (last eq) (Fin (of_int capital))) (Fin 1)) (Fin 100)
                           else Fin 0),
              final_equity = (if n > 0 then last eq else Fin (of_int capital)),
              equity_series = zip (map (\<lambda>w. date (base w)) ws) eq\<rparr>,
            None))"

subsection \<open>The specification's formulas, for comparison\<close>

text \<open>
  The clamp as the specification words it: the first bound is the lower one and the
  second the upper one, whichever is larger; a missing value stays missing.
\<close>

definition spec_clamp :: "fl \<Rightarrow> rat \<Rightarrow> rat \<Rightarrow> fl" where
  "spec_clamp x lo hi =
     (if isna x then x
      else if \<not> fge x (Fin lo) then Fin lo
      else if \<not> fle x (Fin hi) then Fin hi
      else x)"

definition spec_net_return :: "fl \<Rightarrow> fl \<Rightarrow> rat \<Rightarrow> rat \<Rightarrow> rat \<Rightarrow> fl" where
  \<comment> \<open>(1 + clamp(next_open / close - 1, L/100, U/100)) * (1 - F/100) - 1\<close>
  "spec_net_return close next_open U L F =
     fsub (fmul (fadd (Fin 1) (spec_clamp (fsub (fdiv next_open close) (Fin 1)) (L / 100) (U / 100)))
                (Fin (1 - F / 100)))
          (Fin 1)"

definition fprod :: "fl list \<Rightarrow> fl" where
  "fprod xs = foldl fmul (Fin 1) xs"

definition spec_equity :: "int \<Rightarrow> fl list \<Rightarrow> nat \<Rightarrow> fl" where
  \<comment> \<open>equity[i] = C * product of (1 + net_return[j]) for j from 0 to i\<close>
  "spec_equity C nets i = fmul (Fin (of_int C)) (fprod (map (fadd (Fin 1)) (take (Suc i) nets)))"

subsection \<open>Example tables\<close>

definition day :: "'a \<Rightarrow> int \<Rightarrow> rat \<Rightarrow> rat \<Rightarrow> 'a row" where
  "day x t close next_open =
     \<lparr>date = Some t, year = None, d0_close = Fin close, d1_open = Fin next_open, other = x\<rparr>"

definition table :: "'a row list \<Rightarrow> 'a frame" where
  "table rs = \<lparr>columns = [''date'', ''d0_close'', ''d+1_open''], rows = rs\<rparr>"

definition two_days :: "unit frame" where
  "two_days = table [day () 1 100 103, day () 0 100 90]"

definition zero_day :: "unit frame" where
  "zero_day = table [day () 0 0 0, day () 1 100 103]"

section \<open>Dates\<close>

definition ns_per_day :: int where
  "ns_per_day = 86400000000000"

definition weekday :: "timestamp \<Rightarrow> int" where
  \<comment> \<open>dt.weekday: Monday is 0 and Sunday 6; 1970-01-01 was a Thursday\<close>
  "weekday t = (t div ns_per_day + 3) mod 7"

definition year_of_days :: "int \<Rightarrow> int" where
  \<comment> \<open>the year of the proleptic Gregorian calendar, from the days since 1970-01-01\<close>
  "year_of_days n =
     (let z = n + 719468;
          era = z div 146097;
          doe = z mod 146097;
          yoe = (doe - doe div 1460 + doe div 36524 - doe div 146096) div 365;
          doy = doe - (365 * yoe + yoe div 4 - yoe div 100);
          mp = (5 * doy + 2) div 153
      in yoe + era * 400 + (if mp < 10 then 0 else 1))"

definition dt_year :: "timestamp \<Rightarrow> int" where
  "dt_year t = year_of_days (t div ns_per_day)"


text \<open>Python's \<open>str\<close> of an integer, as an f-string prints it.\<close>

definition digit :: "nat \<Rightarrow> char" where
  "digit d = ''0123456789'' ! d"

function str_nat :: "nat \<Rightarrow> string" where
  "str_nat n = (if n < 10 then [digit n] else str_nat (n div 10) @ [digit (n mod 10)])"
  by pat_completeness auto
termination
  by (relation "measure id") auto

declare str_nat.simps [simp del]

definition str_int :: "int \<Rightarrow> string" where
  "str_int i = (if i < 0 then CHR ''-'' # str_nat (nat (- i)) else str_nat (nat i))"



section \<open>The viewer (app.py)\<close>

subsection \<open>Loading the yearly files (load_top1_data)\<close>







definition xlsx_name :: "string \<Rightarrow> int \<Rightarrow> string" where
  \<comment> \<open>f"{prefix}_{year}.xlsx"\<close>
  "xlsx_name prefix y = prefix @ ''_'' @ str_int y @ ''.xlsx''"








subsection \<open>The page\<close>




text \<open>
  A date of the page is a calendar day that the date input delivers (days since
  1970-01-01), or one of the two bounds; \<open>pd.to_datetime\<close> makes the day its midnight.
\<close>

datatype py_date = Day int | Bound "timestamp option"

fun to_datetime_date :: "py_date \<Rightarrow> timestamp option" where
  "to_datetime_date (Day d) = Some (d * ns_per_day)"
| "to_datetime_date (Bound t) = t"

text \<open>Comparisons of date cells: false when a side is NaT.\<close>

fun date_ge :: "timestamp option \<Rightarrow> timestamp option \<Rightarrow> bool" where
  "date_ge (Some a) (Some b) = (a \<ge> b)"
| "date_ge _ _ = False"

fun date_le :: "timestamp option \<Rightarrow> timestamp option \<Rightarrow> bool" where
  "date_le (Some a) (Some b) = (a \<le> b)"
| "date_le _ _ = False"

definition df_view :: "'a frame \<Rightarrow> py_date \<Rightarrow> py_date \<Rightarrow> bool \<Rightarrow> 'a frame" where
  "df_view df_all start_date end_date exclude_friday =
     (let filt = (\<lambda>r. date_ge (date r) (to_datetime_date start_date)
                      \<and> date_le (date r) (to_datetime_date end_date));
          view = \<lparr>columns = columns df_all, rows = filter filt (rows df_all)\<rparr>
      in if exclude_friday
         then \<lparr>columns = columns view,
               rows = filter (\<lambda>r. map_option weekday (date r) \<noteq> Some 4) (rows view)\<rparr>
         else view)"

text \<open>The widgets of the page, as one run of the script reads them.\<close>

datatype label = Volume_top1 | Value_top1









section \<open>The collector (data_create.py)\<close>

subsection \<open>The daily top records (get_top1_by_day)\<close>

text \<open>
  The market data provider answers three calls: the snapshot of all tickers of a day
  (a table indexed by ticker, in the provider's order), the tickers of the exchange-traded
  funds of a day, and the name of a ticker. Each call may raise (\<open>None\<close>). Prices, volumes
  and traded values are integers.
\<close>

record quote =
  px_open :: int
  px_high :: int
  px_low :: int
  px_close :: int
  volume :: int
  trade_value :: int


record top_cells =
  rank_type :: string
  ticker :: string
  name :: string
  d0_open :: int
  d0_high :: int
  d0_low :: int
  d0_volume :: int
  d0_value :: int

type_synonym top_row = "(timestamp, top_cells) cells"



definition top_record :: "timestamp \<Rightarrow> string \<Rightarrow> string \<Rightarrow> string \<Rightarrow> quote \<Rightarrow> top_row" where
  "top_record dt kind tk nm q =
     \<lparr>date = dt, year = None, d0_close = Fin (of_int (px_close q)), d1_open = NaN,
      other = \<lparr>rank_type = kind, ticker = tk, name = nm,
                d0_open = px_open q, d0_high = px_high q, d0_low = px_low q,
                d0_volume = volume q, d0_value = trade_value q\<rparr>\<rparr>"




subsection \<open>Saving the yearly files (main)\<close>

text \<open>
  The last part of \<open>main\<close>, from the merged table \<open>df_final\<close> on: the result lists the files
  written, in the order of the writes, each with its rows.
\<close>

definition groupby_year :: "top_row list \<Rightarrow> (int \<times> top_row list) list" where
  \<comment> \<open>groupby("year"): one group for each year, in ascending order of the years\<close>
  "groupby_year rs =
     map (\<lambda>y. (y, filter (\<lambda>r. year r = Some y) rs)) (sort (remdups (List.map_filter year rs)))"

definition save_year :: "int \<times> top_row list \<Rightarrow> (string \<times> top_row list) list" where
  "save_year g =
     (let (y, df_year) = g in
      if y < 2000 \<or> y > 2025 then []
      else
        let df_year_sorted = sort_key (\<lambda>r. (date r, rank_type (other r), ticker (other r))) df_year;
            df_vol = filter (\<lambda>r. rank_type (other r) = ''VOLUME_TOP'') df_year_sorted;
            df_val = filter (\<lambda>r. rank_type (other r) = ''VALUE_TOP'') df_year_sorted
        in (if df_vol \<noteq> [] then [(''top1_volume_'' @ str_int y @ ''.xlsx'', df_vol)] else [])
         @ (if df_val \<noteq> [] then [(''top1_value_'' @ str_int y @ ''.xlsx'', df_val)] else []))"

definition save_files :: "top_row list \<Rightarrow> (string \<times> top_row list) list" where
  "save_files df_final =
     (let with_year = map (\<lambda>r. r\<lparr>year := Some (dt_year (date r))\<rparr>) df_final
      in concat (map save_year (groupby_year with_year)))"


section \<open>Definitions for the statements about the viewer\<close>









text \<open>Reading a decimal numeral back, to tell the file names of two years apart.\<close>

definition digit_val :: "char \<Rightarrow> nat" where
  "digit_val c = of_char c - 48"

definition decode :: "string \<Rightarrow> nat" where
  "decode s = foldl (\<lambda>a c. 10 * a + digit_val c) 0 s"





definition week :: "unit frame" where
  "week = table [day () (19726 * ns_per_day) 100 101, day () (19727 * ns_per_day) 100 102,
                 day () (19730 * ns_per_day) 100 103, day () (19731 * ns_per_day) 100 104]"

section \<open>Definitions for the statements about the collector\<close>




definition partition_of :: "top_row list \<Rightarrow> int \<Rightarrow> string \<Rightarrow> top_row list" where
  \<comment> \<open>the rows of a year and a rank type, with the year column that \<open>main\<close> adds\<close>
  "partition_of df_final y k =
     map (\<lambda>r. r\<lparr>year := Some (dt_year (date r))\<rparr>)
       (filter (\<lambda>r. dt_year (date r) = y \<and> rank_type (other r) = k) df_final)"

definition written :: "top_row list \<Rightarrow> int \<Rightarrow> string \<Rightarrow> top_row list" where
  \<comment> \<open>the rows that \<open>main\<close> hands to \<open>to_excel\<close> for a year and a rank type\<close>
  "written df_final y k =
     filter (\<lambda>r. rank_type (other r) = k)
       (sort_key (\<lambda>r. (date r, rank_type (other r), ticker (other r)))
          (filter (\<lambda>r. year r = Some y) (map (\<lambda>r. r\<lparr>year := Some (dt_year (date r))\<rparr>) df_final)))"

text \<open>An example provider and an example of the merged table.\<close>

definition flat_quote :: "int \<Rightarrow> int \<Rightarrow> int \<Rightarrow> quote" where
  "flat_quote price vol val =
     \<lparr>px_open = price, px_high = price, px_low = price, px_close = price,
      volume = vol, trade_value = val\<rparr>"


definition final_2024 :: "top_row list" where
  "final_2024 =
     [top_record (19727 * ns_per_day) ''VOLUME_TOP'' ''005930'' ''Samsung'' (flat_quote 70000 100 7000000),
      top_record (10956 * ns_per_day) ''VOLUME_TOP'' ''005930'' ''Samsung'' (flat_quote 5000 100 500000),
      top_record (10956 * ns_per_day) ''VALUE_TOP'' ''000660'' '''' (flat_quote 9000 80 720000)]"

section \<open>Properties of the backtest\<close>

subsection \<open>Auxiliary facts\<close>

lemma fadd_one_isna: "isna (fadd (Fin 1) x) = isna x"
  by (cases x) auto

lemma fsub_one_isna: "isna (fsub x (Fin 1)) = isna x"
  by (cases x) (auto simp: fsub_def)

lemma clip_spec_clamp: "clip x lower upper = spec_clamp x (min lower upper) (max lower upper)"
  by (cases x) (auto simp: clip_def spec_clamp_def fge_def Let_def)

lemma set_sort_values: "set (sort_values k xs) = set xs"
  by (auto simp: sort_values_def)

lemma mset_sort_values: "mset (sort_values k xs) = mset xs"
  by (simp add: sort_values_def) 

lemma length_sort_values: "length (sort_values k xs) = length xs"
  using mset_sort_values[of k xs] by (metis size_mset)

lemma set_work: "set (work df U L F) = add_returns U L F ` set (dropna (rows df))"
  by (simp add: work_def set_sort_values)

lemma base_add_returns: "base (add_returns U L F r) = r"
  by (simp add: add_returns_def Let_def)

lemma net_ret_add_returns:
  "net_ret (add_returns U L F r) =
     spec_net_return (d0_close r) (d1_open r) (max L U) (min L U) F"
  by (simp add: add_returns_def Let_def net_of_def spec_net_return_def clip_spec_clamp
      min_divide_distrib_right max_divide_distrib_right)

lemma base_set_work:
  "base ` set (work df U L F) =
     {r \<in> set (rows df). \<not> isna (d0_close r) \<and> \<not> isna (d1_open r) \<and> date r \<noteq> None}"
  by (auto simp: set_work base_add_returns dropna_def image_iff)

lemma work_single:
  "work (table [day x t c n]) U L F = [add_returns U L F (day x t c n)]"
  by (simp add: work_def table_def dropna_def day_def sort_values_def)

lemma example_net: "map net_ret (work (table [day () 0 100 103]) 3 (-1) (1/2)) = [Fin (2485/100000)]"
  unfolding work_single
  by (simp add: add_returns_def day_def Let_def clip_def net_of_def fsub_def fge_def)

lemma example_equity:
  "map_option final_equity (fst (backtest_next_open (table [day () 0 100 103]) 3 (-1) (1/2) 1000000))
     = Some (Fin 1024850)"
  by (simp add: backtest_next_open_def Let_def work_single equity_def cumprod_def
       add_returns_def clip_def net_of_def fsub_def fge_def, simp add: table_def required_cols_def empty_frame_def dropna_def day_def)

lemma clip_finite_or_nan: "clip x lower upper = NaN \<or> (\<exists>a. clip x lower upper = Fin a)"
  by (cases x) (auto simp: clip_def fge_def Let_def)

lemma clip_isna: "isna (clip x lower upper) = isna x"
  by (cases x) (auto simp: clip_def fge_def Let_def)

lemma clip_in_range:
  "\<not> isna x \<Longrightarrow> fle (Fin (min lower upper)) (clip x lower upper) \<and> fle (clip x lower upper) (Fin (max lower upper))"
  by (cases x) (auto simp: clip_def fge_def Let_def)

lemma clip_keeps:
  "fle (Fin (min lower upper)) x \<Longrightarrow> fle x (Fin (max lower upper)) \<Longrightarrow> clip x lower upper = x"
  by (cases x) (auto simp: clip_def fge_def Let_def)

lemma clip_below:
  "\<not> isna x \<Longrightarrow> \<not> fle (Fin (min lower upper)) x \<Longrightarrow> clip x lower upper = Fin (min lower upper)"
  by (cases x) (auto simp: clip_def fge_def Let_def)

lemma clip_above:
  "\<not> isna x \<Longrightarrow> \<not> fle x (Fin (max lower upper)) \<Longrightarrow> clip x lower upper = Fin (max lower upper)"
  by (cases x) (auto simp: clip_def fge_def Let_def)

lemma raw_isna_iff:
  "\<not> isna c \<Longrightarrow> \<not> isna n \<Longrightarrow>
   isna (fsub (fdiv n c) (Fin 1)) \<longleftrightarrow>
     (c = Fin 0 \<and> n = Fin 0) \<or> (c \<in> {PInf, NInf} \<and> n \<in> {PInf, NInf})"
  by (cases c; cases n) (auto simp: fsub_one_isna inf_signed_def)

lemma net_of_isna: "isna (net_of fee (clip x lower upper)) = isna x"
  using clip_finite_or_nan[of x lower upper] clip_isna[of x lower upper]
  by (auto simp: net_of_def fsub_def)

lemma dropna_fields:
  "r \<in> set (dropna rs) \<Longrightarrow> \<not> isna (d0_close r) \<and> \<not> isna (d1_open r) \<and> date r \<noteq> None"
  by (simp add: dropna_def)

lemma fields_add_returns:
  "raw_ret (add_returns U L F r) = fsub (fdiv (d1_open r) (d0_close r)) (Fin 1)"
  "clipped_ret (add_returns U L F r) = clip (raw_ret (add_returns U L F r)) (L / 100) (U / 100)"
  "net_ret (add_returns U L F r) = net_of (F / 100) (clipped_ret (add_returns U L F r))"
  by (simp_all add: add_returns_def Let_def)

lemma backtest_cases:
  "backtest_next_open df U L F C =
     (if \<not> required_cols \<subseteq> set (columns df)
      then (None, Some (Missing_columns (required_cols - set (columns df))))
      else if dropna (rows df) = [] then (None, Some No_valid_rows)
      else (fst (backtest_next_open df U L F C), None))"
  "required_cols \<subseteq> set (columns df) \<Longrightarrow> dropna (rows df) \<noteq> [] \<Longrightarrow>
     \<exists>st. backtest_next_open df U L F C = (Some st, None)
       \<and> n_trades st = length (work df U L F)
       \<and> final_equity st = last (equity C (work df U L F))
       \<and> win_rate st = fmul (fdiv (Fin (of_nat (wins st))) (Fin (of_nat (n_trades st)))) (Fin 100)
       \<and> wins st = length (filter (\<lambda>x. fgt x (Fin 0)) (map net_ret (work df U L F)))
       \<and> equity_series st = zip (map (\<lambda>w. date (base w)) (work df U L F)) (equity C (work df U L F))"
proof -
  have ne: "required_cols \<subseteq> set (columns df) \<Longrightarrow> columns df \<noteq> []"
    by (auto simp: required_cols_def)
  show "backtest_next_open df U L F C =
     (if \<not> required_cols \<subseteq> set (columns df)
      then (None, Some (Missing_columns (required_cols - set (columns df))))
      else if dropna (rows df) = [] then (None, Some No_valid_rows)
      else (fst (backtest_next_open df U L F C), None))"
    using ne by (simp add: backtest_next_open_def empty_frame_def Let_def)
  assume a: "required_cols \<subseteq> set (columns df)" "dropna (rows df) \<noteq> []"
  have len: "length (work df U L F) = length (dropna (rows df))"
    by (simp add: work_def length_sort_values)
  with a have pos: "0 < length (work df U L F)" by simp
  show "\<exists>st. backtest_next_open df U L F C = (Some st, None)
       \<and> n_trades st = length (work df U L F)
       \<and> final_equity st = last (equity C (work df U L F))
       \<and> win_rate st = fmul (fdiv (Fin (of_nat (wins st))) (Fin (of_nat (n_trades st)))) (Fin 100)
       \<and> wins st = length (filter (\<lambda>x. fgt x (Fin 0)) (map net_ret (work df U L F)))
       \<and> equity_series st = zip (map (\<lambda>w. date (base w)) (work df U L F)) (equity C (work df U L F))"
    using a ne pos by (simp add: backtest_next_open_def empty_frame_def Let_def)
qed

lemma length_cumprod_from: "length (cumprod_from acc xs) = length xs"
  by (induction xs arbitrary: acc) auto

lemma cumprod_from_nth:
  "i < length xs \<Longrightarrow>
   cumprod_from acc xs ! i =
     (if isna (xs ! i) then NaN else foldl fmul acc (filter (\<lambda>x. \<not> isna x) (take (Suc i) xs)))"
proof (induction xs arbitrary: acc i)
  case Nil
  then show ?case by simp
next
  case (Cons x xs)
  show ?case
  proof (cases i)
    case 0
    then show ?thesis by simp
  next
    case (Suc j)
    with Cons.prems have j: "j < length xs" by simp
    show ?thesis
      using Cons.IH[OF j] Suc by simp
  qed
qed

lemma fmul_Fin_NaN: "fmul (Fin c) NaN = NaN"
  by simp

lemma length_equity: "length (equity C ws) = length ws"
  by (simp add: equity_def cumprod_def length_cumprod_from)

lemma equity_nth:
  assumes "i < length ws"
  shows "equity C ws ! i =
     (if isna (net_ret (ws ! i)) then NaN
      else fmul (Fin (of_int C))
             (fprod (filter (\<lambda>x. \<not> isna x) (map (\<lambda>w. fadd (Fin 1) (net_ret w)) (take (Suc i) ws)))))"
proof -
  have "equity C ws ! i = fmul (Fin (of_int C)) (cumprod_from (Fin 1) (map (\<lambda>w. fadd (Fin 1) (net_ret w)) ws) ! i)"
    using assms by (simp add: equity_def cumprod_def length_cumprod_from)
  also have "cumprod_from (Fin 1) (map (\<lambda>w. fadd (Fin 1) (net_ret w)) ws) ! i =
     (if isna (net_ret (ws ! i)) then NaN
      else fprod (filter (\<lambda>x. \<not> isna x) (map (\<lambda>w. fadd (Fin 1) (net_ret w)) (take (Suc i) ws))))"
    using assms cumprod_from_nth[of i "map (\<lambda>w. fadd (Fin 1) (net_ret w)) ws" "Fin 1"]
    by (simp add: fprod_def fadd_one_isna take_map)
  finally show ?thesis by simp
qed

lemma equity_nth_spec:
  assumes "i < length ws" and "\<forall>w \<in> set ws. \<not> isna (net_ret w)"
  shows "equity C ws ! i = spec_equity C (map net_ret ws) i"
proof -
  have "\<forall>x \<in> set (map (\<lambda>w. fadd (Fin 1) (net_ret w)) (take (Suc i) ws)). \<not> isna x"
    using assms(2) by (auto simp: fadd_one_isna dest: in_set_takeD)
  then have f: "filter (\<lambda>x. \<not> isna x) (map (\<lambda>w. fadd (Fin 1) (net_ret w)) (take (Suc i) ws))
      = map (\<lambda>w. fadd (Fin 1) (net_ret w)) (take (Suc i) ws)"
    by (simp only: filter_id_conv) 
  have n: "\<not> isna (net_ret (ws ! i))" using assms by simp
  show ?thesis
    using equity_nth[OF assms(1), of C] n
    by (simp only: f spec_equity_def if_False map_map take_map comp_def)
qed

lemma work_dates: "w \<in> set (work df U L F) \<Longrightarrow> date (base w) \<noteq> None"
  by (auto simp: set_work base_add_returns dropna_def)

lemma work_sorted: "sorted (map (\<lambda>w. the (date (base w))) (work df U L F))"
proof -
  let ?xs = "map (add_returns U L F) (dropna (rows df))"
  have "\<forall>w \<in> set ?xs. date (base w) \<noteq> None"
    by (auto simp: base_add_returns dropna_def)
  then have "filter (\<lambda>w. date (base w) = None) ?xs = []" "filter (\<lambda>w. date (base w) \<noteq> None) ?xs = ?xs"
    by (simp_all only: filter_empty_conv filter_id_conv)
  then have "work df U L F = sort_key (\<lambda>w. the (date (base w))) ?xs"
    by (simp add: work_def sort_values_def)
  then show ?thesis by simp
qed

lemma work_mset: "mset (map base (work df U L F)) = mset (dropna (rows df))"
proof -
  have "mset (map base (work df U L F)) = image_mset base (mset (map (add_returns U L F) (dropna (rows df))))"
    by (simp add: work_def mset_sort_values)
  also have "\<dots> = mset (dropna (rows df))"
    by (simp add: image_mset.compositionality comp_def base_add_returns)
  finally show ?thesis .
qed

lemma cumprod_single: "cumprod [x] = [x]"
  by (cases x) (simp_all add: cumprod_def inf_signed_def)

lemma net_ret_isna_iff:
  assumes "w \<in> set (work df U L F)"
  shows "isna (net_ret w) \<longleftrightarrow>
     (d0_close (base w) = Fin 0 \<and> d1_open (base w) = Fin 0)
     \<or> (d0_close (base w) \<in> {PInf, NInf} \<and> d1_open (base w) \<in> {PInf, NInf})"
proof -
  from assms obtain r where r: "r \<in> set (dropna (rows df))" and w: "w = add_returns U L F r"
    by (auto simp: set_work)
  have "isna (net_ret w) = isna (raw_ret w)"
    by (simp add: w fields_add_returns net_of_isna)
  then show ?thesis
    using raw_isna_iff[of "d0_close r" "d1_open r"] dropna_fields[OF r]
    by (simp add: w fields_add_returns base_add_returns)
qed

lemma single_trade:
  assumes "required_cols \<subseteq> set (columns df)" and "length (dropna (rows df)) = 1"
  shows "\<exists>st w. backtest_next_open df U L F C = (Some st, None) \<and> work df U L F = [w]
      \<and> n_trades st = 1
      \<and> final_equity st = fmul (Fin (of_int C)) (fadd (Fin 1) (net_ret w))
      \<and> (win_rate st = Fin 0 \<or> win_rate st = Fin 100)"
proof -
  have ne: "dropna (rows df) \<noteq> []" using assms(2) by auto
  have "length (work df U L F) = 1"
    using assms(2) by (simp add: work_def length_sort_values)
  then obtain w where w: "work df U L F = [w]"
    by (cases "work df U L F") auto
  have eq: "equity C [w] = [fmul (Fin (of_int C)) (fadd (Fin 1) (net_ret w))]"
    by (simp add: equity_def cumprod_single)
  from backtest_cases(2)[OF assms(1) ne, of U L F C] obtain st where
    st: "backtest_next_open df U L F C = (Some st, None)"
      "n_trades st = length (work df U L F)"
      "final_equity st = last (equity C (work df U L F))"
      "win_rate st = fmul (fdiv (Fin (of_nat (wins st))) (Fin (of_nat (n_trades st)))) (Fin 100)"
      "wins st = length (filter (\<lambda>x. fgt x (Fin 0)) (map net_ret (work df U L F)))"
    by blast
  have "wins st = 0 \<or> wins st = 1" using st(5) by (simp add: w)
  then have "win_rate st = Fin 0 \<or> win_rate st = Fin 100"
    using st(4) st(2) by (auto simp: w)
  then show ?thesis using st(1,2,3) by (simp add: w eq)
qed

lemma work_two_days:
  "work two_days 3 (-1) (1/2) =
     [add_returns 3 (-1) (1/2) (day () 0 100 90), add_returns 3 (-1) (1/2) (day () 1 100 103)]"
  by (simp add: two_days_def work_def table_def dropna_def sort_values_def add_returns_def day_def Let_def)

lemma work_zero_day:
  "work zero_day 3 (-1) (1/2) =
     [add_returns 3 (-1) (1/2) (day () 0 0 0), add_returns 3 (-1) (1/2) (day () 1 100 103)]"
  by (simp add: zero_day_def work_def table_def dropna_def sort_values_def add_returns_def day_def Let_def)

subsection \<open>Net return of a retained row\<close>

text \<open>
  C1. For every row that the backtest retains, the net return is
  (1 + clamp(next_open / close - 1, lo, hi)) * (1 - F/100) - 1 where lo and hi are the smaller
  and the larger of L/100 and U/100: the thresholds are ordered before the clipping. For
  L \<le> U this is the clamp between L/100 and U/100. The fee is applied after the clipping.
  The retained rows are those with a close, a next open and a date. For close 100, next open
  103, U = 3, L = -1, F = 0.5 and capital 1000000 the net return is 0.02485 and the final
  equity 1024850
\<close>

theorem net_return_formula:
  "(L \<le> U \<longrightarrow> (\<forall>w \<in> set (work df U L F).
       net_ret w = spec_net_return (d0_close (base w)) (d1_open (base w)) U L F))
   \<and> (\<forall>w \<in> set (work df U L F).
       net_ret w = spec_net_return (d0_close (base w)) (d1_open (base w)) (max L U) (min L U) F)
   \<and> base ` set (work df U L F) =
       {r \<in> set (rows df). \<not> isna (d0_close r) \<and> \<not> isna (d1_open r) \<and> date r \<noteq> None}
   \<and> map net_ret (work (table [day () 0 100 103]) 3 (-1) (1/2)) = [Fin (2485/100000)]
   \<and> map_option final_equity
         (fst (backtest_next_open (table [day () 0 100 103]) 3 (-1) (1/2) 1000000))
       = Some (Fin 1024850)"
proof -
  have gen: "\<forall>w \<in> set (work df U L F).
       net_ret w = spec_net_return (d0_close (base w)) (d1_open (base w)) (max L U) (min L U) F"
    by (auto simp: set_work net_ret_add_returns base_add_returns)
  have ord: "L \<le> U \<longrightarrow> (\<forall>w \<in> set (work df U L F).
       net_ret w = spec_net_return (d0_close (base w)) (d1_open (base w)) U L F)"
    using gen by (simp add: max_def min_def)
  show ?thesis
    using gen ord base_set_work[of df U L F] example_net example_equity by blast
qed

theorem net_return_formula_witness:
  "net_ret (add_returns 3 (-1) (1/2) (day () 0 100 103))
     = spec_net_return (Fin 100) (Fin 103) 3 (-1) (1/2)"
proof -
  let ?w = "add_returns 3 (-1) (1/2) (day () 0 100 103)"
  have m: "?w \<in> set (work (table [day () 0 100 103]) 3 (-1) (1/2))"
    by (simp add: work_single)
  have ord: "(-1::rat) \<le> 3" by simp
  from net_return_formula [where L = "-1" and U = 3 and F = "1/2" and df = "table [day () 0 100 103]"]
  have "net_ret ?w = spec_net_return (d0_close (base ?w)) (d1_open (base ?w)) 3 (-1) (1/2)"
    using m ord by blast
  then show ?thesis by (simp add: base_add_returns day_def)
qed

text \<open>
  With L = 3 above U = -1 a raw return of 0.01 lies between the two thresholds and is kept:
  the net return is 0.00495, where the clamp with 0.03 as its lower bound gives 0.02485.
\<close>

theorem net_return_reversed_bounds:
  "map net_ret (work (table [day () 0 100 101]) (-1) 3 (1/2)) = [Fin (99/20000)]
   \<and> spec_net_return (Fin 100) (Fin 101) (-1) 3 (1/2) = Fin (497/20000)"
  unfolding work_single
  by (simp add: add_returns_def day_def Let_def clip_def net_of_def fsub_def fge_def
      spec_net_return_def spec_clamp_def)

subsection \<open>The equity curve\<close>

text \<open>
  C2. The rows of the backtest are the retained rows in ascending order of date. The equity
  of a row whose net return is NaN is NaN; the equity of any other row i is the capital times
  the product of 1 + net return over the rows 0 to i whose net return is not NaN. When no net
  return is NaN, this is capital times the product of 1 + net return over all rows 0 to i. A
  net return is NaN exactly when close and next open are both zero (or both infinite). With
  one retained row the final equity is capital * (1 + net return) and the win rate is 0 or 100.
\<close>

theorem equity_is_running_product:
  "sorted (map (\<lambda>w. the (date (base w))) (work df U L F))
   \<and> mset (map base (work df U L F)) = mset (dropna (rows df))
   \<and> length (equity C (work df U L F)) = length (work df U L F)
   \<and> (\<forall>i < length (work df U L F).
        equity C (work df U L F) ! i =
          (if isna (net_ret (work df U L F ! i)) then NaN
           else fmul (Fin (of_int C))
                  (fprod (filter (\<lambda>x. \<not> isna x)
                     (map (\<lambda>w. fadd (Fin 1) (net_ret w)) (take (Suc i) (work df U L F)))))))
   \<and> ((\<forall>w \<in> set (work df U L F). \<not> isna (net_ret w)) \<longrightarrow>
        (\<forall>i < length (work df U L F).
           equity C (work df U L F) ! i = spec_equity C (map net_ret (work df U L F)) i))
   \<and> (\<forall>w \<in> set (work df U L F).
        isna (net_ret w) \<longleftrightarrow>
          (d0_close (base w) = Fin 0 \<and> d1_open (base w) = Fin 0)
          \<or> (d0_close (base w) \<in> {PInf, NInf} \<and> d1_open (base w) \<in> {PInf, NInf}))
   \<and> (required_cols \<subseteq> set (columns df) \<and> length (dropna (rows df)) = 1 \<longrightarrow>
        (\<exists>st w. backtest_next_open df U L F C = (Some st, None) \<and> work df U L F = [w]
           \<and> n_trades st = 1
           \<and> final_equity st = fmul (Fin (of_int C)) (fadd (Fin 1) (net_ret w))
           \<and> (win_rate st = Fin 0 \<or> win_rate st = Fin 100)))"
  using work_sorted[of df U L F] work_mset[of df U L F] length_equity[of C "work df U L F"]
    equity_nth[of _ "work df U L F" C] equity_nth_spec[of _ "work df U L F" C]
    net_ret_isna_iff[of _ df U L F] single_trade[of df U L F C]
  by (intro conjI allI ballI impI) (simp_all only:)

theorem equity_is_running_product_witness:
  "equity 1000000 (work two_days 3 (-1) (1/2)) ! 1 = Fin (403811397 / 400)
   \<and> spec_equity 1000000 (map net_ret (work two_days 3 (-1) (1/2))) 1 = Fin (403811397 / 400)
   \<and> (\<exists>st. backtest_next_open (table [day () 0 100 103]) 3 (-1) (1/2) 1000000 = (Some st, None)
         \<and> final_equity st = Fin 1024850 \<and> (win_rate st = Fin 0 \<or> win_rate st = Fin 100))"
proof -
  have a: "\<forall>w \<in> set (work two_days 3 (-1) (1/2)). \<not> isna (net_ret w)"
    unfolding work_two_days
    by (simp add: add_returns_def day_def Let_def clip_def net_of_def fsub_def fge_def)
  have l: "1 < length (work two_days 3 (-1) (1/2))"
    unfolding work_two_days by simp
  have v: "spec_equity 1000000 (map net_ret (work two_days 3 (-1) (1/2))) 1 = Fin (403811397 / 400)"
    unfolding work_two_days
    by (simp add: spec_equity_def fprod_def add_returns_def day_def Let_def clip_def net_of_def fsub_def fge_def)
  from equity_is_running_product [of two_days 3 "-1" "1/2" 1000000] a l
  have e: "equity 1000000 (work two_days 3 (-1) (1/2)) ! 1
      = spec_equity 1000000 (map net_ret (work two_days 3 (-1) (1/2))) 1"
    by blast
  let ?one = "table [day () 0 100 103]"
  have h: "required_cols \<subseteq> set (columns ?one) \<and> length (dropna (rows ?one)) = 1"
    by (simp add: table_def required_cols_def dropna_def day_def)
  have n: "fmul (Fin (of_int 1000000)) (fadd (Fin 1) (net_ret (add_returns 3 (-1) (1/2) (day () 0 100 103))))
      = Fin 1024850"
    by (simp add: add_returns_def day_def Let_def clip_def net_of_def fsub_def fge_def)
  from equity_is_running_product [of ?one 3 "-1" "1/2" 1000000] h
  obtain st w where s: "backtest_next_open ?one 3 (-1) (1/2) 1000000 = (Some st, None)"
      "work ?one 3 (-1) (1/2) = [w]"
      "final_equity st = fmul (Fin (of_int 1000000)) (fadd (Fin 1) (net_ret w))"
      "win_rate st = Fin 0 \<or> win_rate st = Fin 100"
    by blast
  from s(2) have "w = add_returns 3 (-1) (1/2) (day () 0 100 103)"
    by (simp add: work_single)
  with s(3) n have "final_equity st = Fin 1024850" by simp
  with s(1,4) have "\<exists>st. backtest_next_open ?one 3 (-1) (1/2) 1000000 = (Some st, None)
         \<and> final_equity st = Fin 1024850 \<and> (win_rate st = Fin 0 \<or> win_rate st = Fin 100)"
    by blast
  with e v show ?thesis by simp
qed

text \<open>
  A first day with close and next open zero has a NaN return; the running product skips
  it, so the second day's equity is 1024850, where the product over both days is NaN.
\<close>

theorem equity_skips_missing_return:
  "equity 1000000 (work zero_day 3 (-1) (1/2)) = [NaN, Fin 1024850]
   \<and> spec_equity 1000000 (map net_ret (work zero_day 3 (-1) (1/2))) 1 = NaN"
  unfolding work_zero_day
  by (simp add: equity_def cumprod_def spec_equity_def fprod_def add_returns_def day_def Let_def
      clip_def net_of_def fsub_def fge_def)

subsection \<open>Failure and success\<close>



subsection \<open>Range of the clipped return\<close>

text \<open>
  C4. For every retained row whose raw return is a number, the clipped return
  lies between the smaller and the larger of L/100 and U/100, so between L/100 and U/100 when
  L \<le> U; a raw return between the two thresholds is kept as it is, also when L > U, a raw
  return below the smaller threshold becomes the smaller threshold, and a raw return above
  the larger threshold becomes the larger one. The raw return of a retained row is NaN
  exactly when close and next open are both zero (or both infinite), and then the clipped
  return is NaN
\<close>

theorem clipped_return_range:
  "\<forall>w \<in> set (work df U L F).
      (isna (raw_ret w) \<longrightarrow> isna (clipped_ret w))
    \<and> (\<not> isna (raw_ret w) \<longrightarrow>
         fle (Fin (min L U / 100)) (clipped_ret w) \<and> fle (clipped_ret w) (Fin (max L U / 100)))
    \<and> (L \<le> U \<longrightarrow> \<not> isna (raw_ret w) \<longrightarrow>
         fle (Fin (L / 100)) (clipped_ret w) \<and> fle (clipped_ret w) (Fin (U / 100)))
    \<and> (fle (Fin (min L U / 100)) (raw_ret w) \<and> fle (raw_ret w) (Fin (max L U / 100)) \<longrightarrow>
         clipped_ret w = raw_ret w)
    \<and> (isna (raw_ret w) \<longleftrightarrow>
         (d0_close (base w) = Fin 0 \<and> d1_open (base w) = Fin 0)
         \<or> (d0_close (base w) \<in> {PInf, NInf} \<and> d1_open (base w) \<in> {PInf, NInf}))
    \<and> (\<not> isna (raw_ret w) \<and> \<not> fle (Fin (min L U / 100)) (raw_ret w) \<longrightarrow>
         clipped_ret w = Fin (min L U / 100))
    \<and> (\<not> isna (raw_ret w) \<and> \<not> fle (raw_ret w) (Fin (max L U / 100)) \<longrightarrow>
         clipped_ret w = Fin (max L U / 100))"
proof
  fix w assume "w \<in> set (work df U L F)"
  then obtain r where r: "r \<in> set (dropna (rows df))" and w: "w = add_returns U L F r"
    by (auto simp: set_work)
  let ?x = "raw_ret w"
  have c: "clipped_ret w = clip ?x (L / 100) (U / 100)"
    by (simp add: w fields_add_returns)
  have mn: "min (L / 100) (U / 100) = min L U / 100" "max (L / 100) (U / 100) = max L U / 100"
    by (simp_all add: min_divide_distrib_right max_divide_distrib_right)
  have 1: "isna ?x \<longrightarrow> isna (clipped_ret w)" by (simp add: c clip_isna)
  have 2: "\<not> isna ?x \<longrightarrow>
         fle (Fin (min L U / 100)) (clipped_ret w) \<and> fle (clipped_ret w) (Fin (max L U / 100))"
    using clip_in_range[of ?x "L / 100" "U / 100"] by (simp add: c mn)
  have 3: "L \<le> U \<longrightarrow> \<not> isna ?x \<longrightarrow>
         fle (Fin (L / 100)) (clipped_ret w) \<and> fle (clipped_ret w) (Fin (U / 100))"
    using 2 by (auto simp: min_def max_def)
  have 4: "fle (Fin (min L U / 100)) ?x \<and> fle ?x (Fin (max L U / 100)) \<longrightarrow> clipped_ret w = ?x"
    using clip_keeps[of "L / 100" "U / 100" ?x] by (simp add: c mn)
  have 5: "isna ?x \<longleftrightarrow>
         (d0_close (base w) = Fin 0 \<and> d1_open (base w) = Fin 0)
         \<or> (d0_close (base w) \<in> {PInf, NInf} \<and> d1_open (base w) \<in> {PInf, NInf})"
    using raw_isna_iff[of "d0_close r" "d1_open r"] dropna_fields[OF r]
    by (simp add: w fields_add_returns base_add_returns)
  have 6: "\<not> isna ?x \<and> \<not> fle (Fin (min L U / 100)) ?x \<longrightarrow> clipped_ret w = Fin (min L U / 100)"
    using clip_below[of ?x "L / 100" "U / 100"] by (simp add: c mn)
  have 7: "\<not> isna ?x \<and> \<not> fle ?x (Fin (max L U / 100)) \<longrightarrow> clipped_ret w = Fin (max L U / 100)"
    using clip_above[of ?x "L / 100" "U / 100"] by (simp add: c mn)
  show "(isna (raw_ret w) \<longrightarrow> isna (clipped_ret w))
    \<and> (\<not> isna (raw_ret w) \<longrightarrow>
         fle (Fin (min L U / 100)) (clipped_ret w) \<and> fle (clipped_ret w) (Fin (max L U / 100)))
    \<and> (L \<le> U \<longrightarrow> \<not> isna (raw_ret w) \<longrightarrow>
         fle (Fin (L / 100)) (clipped_ret w) \<and> fle (clipped_ret w) (Fin (U / 100)))
    \<and> (fle (Fin (min L U / 100)) (raw_ret w) \<and> fle (raw_ret w) (Fin (max L U / 100)) \<longrightarrow>
         clipped_ret w = raw_ret w)
    \<and> (isna (raw_ret w) \<longleftrightarrow>
         (d0_close (base w) = Fin 0 \<and> d1_open (base w) = Fin 0)
         \<or> (d0_close (base w) \<in> {PInf, NInf} \<and> d1_open (base w) \<in> {PInf, NInf}))
    \<and> (\<not> isna (raw_ret w) \<and> \<not> fle (Fin (min L U / 100)) (raw_ret w) \<longrightarrow>
         clipped_ret w = Fin (min L U / 100))
    \<and> (\<not> isna (raw_ret w) \<and> \<not> fle (raw_ret w) (Fin (max L U / 100)) \<longrightarrow>
         clipped_ret w = Fin (max L U / 100))"
    by (intro conjI 1 2 3 4 5 6 7)
qed

theorem clipped_return_range_witness:
  "fle (Fin (-1/100)) (clipped_ret (add_returns 3 (-1) (1/2) (day () 0 100 103)))
   \<and> fle (clipped_ret (add_returns 3 (-1) (1/2) (day () 0 100 103))) (Fin (3/100))
   \<and> clipped_ret (add_returns 3 (-1) (1/2) (day () 0 100 90)) = Fin (-1/100)
   \<and> clipped_ret (add_returns (-1) 3 (1/2) (day () 0 100 110)) = Fin (3/100)"
proof -
  let ?w = "add_returns 3 (-1) (1/2) (day () 0 100 103)"
  have m: "?w \<in> set (work (table [day () 0 100 103]) 3 (-1) (1/2))"
    by (simp add: work_single)
  have ord: "(-1::rat) \<le> 3" by simp
  have raw: "\<not> isna (raw_ret ?w)"
    by (simp add: fields_add_returns day_def fsub_def)
  note A = clipped_return_range
    [where L = "-1" and U = 3 and F = "1/2" and df = "table [day () 0 100 103]", THEN bspec, OF m]
  have "fle (Fin (-1 / 100)) (clipped_ret ?w) \<and> fle (clipped_ret ?w) (Fin (3 / 100))"
    using A [THEN conjunct2, THEN conjunct2, THEN conjunct1] ord raw by (elim impE)
  then have 1: "fle (Fin (-1/100)) (clipped_ret ?w) \<and> fle (clipped_ret ?w) (Fin (3/100))"
    by simp
  let ?lo = "add_returns 3 (-1) (1/2) (day () 0 100 90)"
  have mlo: "?lo \<in> set (work (table [day () 0 100 90]) 3 (-1) (1/2))"
    by (simp add: work_single)
  have below: "\<not> isna (raw_ret ?lo) \<and> \<not> fle (Fin (min (-1) 3 / 100)) (raw_ret ?lo)"
    by (simp add: fields_add_returns day_def fsub_def)
  note B = clipped_return_range
    [where L = "-1" and U = 3 and F = "1/2" and df = "table [day () 0 100 90]", THEN bspec, OF mlo]
  have "clipped_ret ?lo = Fin (min (-1) 3 / 100)"
    using B [THEN conjunct2, THEN conjunct2, THEN conjunct2, THEN conjunct2, THEN conjunct2,
             THEN conjunct1] below
    by (elim impE)
  then have 2: "clipped_ret ?lo = Fin (-1/100)" by simp
  let ?hi = "add_returns (-1) 3 (1/2) (day () 0 100 110)"
  have mhi: "?hi \<in> set (work (table [day () 0 100 110]) (-1) 3 (1/2))"
    by (simp add: work_single)
  have above: "\<not> isna (raw_ret ?hi) \<and> \<not> fle (raw_ret ?hi) (Fin (max 3 (-1) / 100))"
    by (simp add: fields_add_returns day_def fsub_def)
  note C = clipped_return_range
    [where L = 3 and U = "-1" and F = "1/2" and df = "table [day () 0 100 110]", THEN bspec, OF mhi]
  have "clipped_ret ?hi = Fin (max 3 (-1) / 100)"
    using C [THEN conjunct2, THEN conjunct2, THEN conjunct2, THEN conjunct2, THEN conjunct2,
             THEN conjunct2] above
    by (elim impE)
  then have 3: "clipped_ret ?hi = Fin (3/100)" by simp
  from 1 2 3 show ?thesis by (intro conjI) (simp_all only: simp_thms)
qed

text \<open>
  With L = 3 and U = -1 a raw return of 0.01 is clipped to neither bound; with both prices
  zero the clipped return is NaN, which lies in no interval.
\<close>

theorem clipped_return_outside_claim:
  "map clipped_ret (work (table [day () 0 100 101]) (-1) 3 (1/2)) = [Fin (1/100)]
   \<and> Fin (1/100) \<noteq> Fin (3/100) \<and> Fin (1/100) \<noteq> Fin (-1/100)
   \<and> map clipped_ret (work (table [day () 0 0 0]) 3 (-1) (1/2)) = [NaN]
   \<and> \<not> fle (Fin (-1/100)) NaN \<and> \<not> fle NaN (Fin (3/100))"
  unfolding work_single
  by (simp add: add_returns_def day_def Let_def clip_def fsub_def fge_def)

subsection \<open>Monotonicity of the net return\<close>

text \<open>
  C5. For a fee percentage F with 0 \<le> F < 100 the net return
  (1 + c) * (1 - F/100) - 1 does not decrease when the clipped return c grows
\<close>

theorem net_of_monotone:
  "0 \<le> F \<Longrightarrow> F < 100 \<Longrightarrow> fle c1 c2 \<Longrightarrow> fle (net_of (F / 100) c1) (net_of (F / 100) c2)"
  by (cases c1; cases c2) (auto simp: net_of_def fsub_def inf_signed_def mult_right_mono)

theorem net_of_monotone_witness:
  "fle (net_of ((1/2) / 100) (Fin (-1/100))) (net_of ((1/2) / 100) (Fin (3/100)))"
  using net_of_monotone [of "1/2" "Fin (-1/100)" "Fin (3/100)"] by simp

subsection \<open>Rows with a zero close\<close>

text \<open>
  C9. A row with close 0, a next open and a date is not dropped: the backtest
  succeeds, the row is one of its trades, and its raw return is the result of the division by
  zero less one (an infinity, or NaN when the next open is zero as well), which the clipping
  turns into the upper or the lower threshold (NaN stays)
\<close>

theorem zero_close_row_is_traded:
  assumes "required_cols \<subseteq> set (columns df)" and "r \<in> set (rows df)"
    and "d0_close r = Fin 0" and "\<not> isna (d1_open r)" and "date r \<noteq> None"
  shows "\<exists>st. backtest_next_open df U L F C = (Some st, None)
      \<and> n_trades st = length (work df U L F)
      \<and> equity_series st = zip (map (\<lambda>w. date (base w)) (work df U L F)) (equity C (work df U L F))
      \<and> add_returns U L F r \<in> set (work df U L F)
      \<and> raw_ret (add_returns U L F r) = fsub (fdiv (d1_open r) (Fin 0)) (Fin 1)
      \<and> (\<forall>a. d1_open r = Fin a \<longrightarrow>
           raw_ret (add_returns U L F r) = (if a = 0 then NaN else inf_signed (0 < a))
           \<and> clipped_ret (add_returns U L F r) =
               (if a = 0 then NaN else if 0 < a then Fin (max L U / 100) else Fin (min L U / 100)))"
proof -
  have r: "r \<in> set (dropna (rows df))"
    using assms by (simp add: dropna_def)
  then have ne: "dropna (rows df) \<noteq> []" by auto
  have mem: "add_returns U L F r \<in> set (work df U L F)"
    using r by (simp add: set_work)
  have raw: "raw_ret (add_returns U L F r) = fsub (fdiv (d1_open r) (Fin 0)) (Fin 1)"
    using assms(3) by (simp add: fields_add_returns)
  have fin: "\<forall>a. d1_open r = Fin a \<longrightarrow>
           raw_ret (add_returns U L F r) = (if a = 0 then NaN else inf_signed (0 < a))
           \<and> clipped_ret (add_returns U L F r) =
               (if a = 0 then NaN else if 0 < a then Fin (max L U / 100) else Fin (min L U / 100))"
    using assms(3)
    by (auto simp: fields_add_returns fsub_def inf_signed_def clip_def fge_def Let_def
        min_divide_distrib_right max_divide_distrib_right)
  from backtest_cases(2)[OF assms(1) ne, of U L F C] mem raw fin show ?thesis by blast
qed

theorem zero_close_row_is_traded_witness:
  "\<exists>st. backtest_next_open (table [day () 0 0 103]) 3 (-1) (1/2) 1000000 = (Some st, None)
     \<and> n_trades st = 1 \<and> equity_series st = [(Some 0, Fin 1024850)]"
proof -
  let ?df = "table [day () 0 0 103]"
  have h: "required_cols \<subseteq> set (columns ?df)" "day () 0 0 103 \<in> set (rows ?df)"
    "d0_close (day () 0 0 103) = Fin 0" "\<not> isna (d1_open (day () 0 0 103))"
    "date (day () 0 0 103) \<noteq> None"
    by (simp_all add: table_def required_cols_def day_def)
  have w: "work ?df 3 (-1) (1/2) = [add_returns 3 (-1) (1/2) (day () 0 0 103)]"
    by (rule work_single)
  have e: "equity 1000000 [add_returns 3 (-1) (1/2) (day () 0 0 103)] = [Fin 1024850]"
    by (simp add: equity_def cumprod_def add_returns_def day_def Let_def clip_def net_of_def
        fsub_def fge_def inf_signed_def)
  have d: "date (base (add_returns 3 (-1) (1/2) (day () 0 0 103))) = Some 0"
    by (simp add: base_add_returns day_def)
  from zero_close_row_is_traded [OF h, of 3 "-1" "1/2" 1000000]
  show ?thesis unfolding w e by (auto simp: d)
qed

section \<open>Properties of the viewer\<close>

subsection \<open>Auxiliary facts\<close>

lemma df_view_eq:
  "df_view df s e x =
     \<lparr>columns = columns df,
      rows = filter (\<lambda>r. date_ge (date r) (to_datetime_date s) \<and> date_le (date r) (to_datetime_date e)
                        \<and> (x \<longrightarrow> map_option weekday (date r) \<noteq> Some 4)) (rows df)\<rparr>"
  by (cases x) (simp_all add: df_view_def Let_def conj_commute conj_left_commute cong: conj_cong)

















lemma digit_cases: "d < 10 \<Longrightarrow> d \<in> {0, 1, 2, 3, 4, 5, 6, 7, 8, 9::nat}"
  by auto

lemma digit_val_digit: "d < 10 \<Longrightarrow> digit_val (digit d) = d"
  by (drule digit_cases) (auto simp: digit_def digit_val_def)

lemma digit_not_minus: "d < 10 \<Longrightarrow> digit d \<noteq> CHR ''-''"
  by (drule digit_cases) (auto simp: digit_def)

lemma decode_str_nat: "decode (str_nat n) = n"
proof (induction n rule: str_nat.induct)
  case (1 n)
  show ?case
  proof (cases "n < 10")
    case True
    then show ?thesis
      by (subst str_nat.simps) (simp add: decode_def digit_val_digit)
  next
    case False
    with 1 have "decode (str_nat (n div 10)) = n div 10" by simp
    with False show ?thesis
      by (subst str_nat.simps) (simp add: decode_def digit_val_digit)
  qed
qed

lemma str_nat_inj: "str_nat a = str_nat b \<Longrightarrow> a = b"
  by (metis decode_str_nat)

lemma str_nat_digits: "CHR ''-'' \<notin> set (str_nat n)"
proof (induction n rule: str_nat.induct)
  case (1 n)
  have d: "CHR ''-'' \<noteq> digit (n mod 10)"
    using digit_not_minus[of "n mod 10"] by auto
  show ?case
  proof (cases "n < 10")
    case True
    with d show ?thesis
      by (subst str_nat.simps) simp
  next
    case False
    with 1 d show ?thesis
      by (subst str_nat.simps) simp
  qed
qed

lemma str_int_inj: "str_int a = str_int b \<Longrightarrow> a = b"
proof -
  assume e: "str_int a = str_int b"
  have m: "str_nat n \<noteq> CHR ''-'' # xs" for xs n
    using str_nat_digits[of n] by (metis list.set_intros(1))
  show "a = b"
  proof (cases "a < 0"; cases "b < 0")
    assume "a < 0" "b < 0"
    with e have "nat (- a) = nat (- b)" by (auto simp: str_int_def dest: str_nat_inj)
    with \<open>a < 0\<close> \<open>b < 0\<close> show ?thesis by simp
  next
    assume "a < 0" "\<not> b < 0"
    with e m[of "nat b" "str_nat (nat (- a))"] show ?thesis by (simp add: str_int_def)
  next
    assume "\<not> a < 0" "b < 0"
    with e m[of "nat a" "str_nat (nat (- b))"] show ?thesis by (simp add: str_int_def)
  next
    assume "\<not> a < 0" "\<not> b < 0"
    with e have "nat a = nat b" by (auto simp: str_int_def dest: str_nat_inj)
    with \<open>\<not> a < 0\<close> \<open>\<not> b < 0\<close> show ?thesis by simp
  qed
qed

lemma xlsx_name_inj [simp]: "xlsx_name p a = xlsx_name p b \<longleftrightarrow> a = b"
  by (auto simp: xlsx_name_def dest: str_int_inj)


lemma name_2024: "xlsx_name ''top1_volume'' 2024 = ''top1_volume_2024.xlsx''"
  by code_simp

subsection \<open>Loading\<close>



subsection \<open>The filter of the page\<close>

text \<open>
  C10. The view has the columns of the loaded table, and its rows are exactly the rows of the
  loaded table, unchanged and in their order, whose date lies between the midnights of the
  start date and of the end date, both included, and, when the box is ticked, does not fall
  on weekday 4; weekday 4 of a day d is (d + 3) mod 7 = 4, a Friday such as 2024-01-05.
\<close>

theorem df_view_keeps_exactly:
  "columns (df_view df s e x) = columns df
   \<and> rows (df_view df s e x) =
       filter (\<lambda>r. date_ge (date r) (to_datetime_date s) \<and> date_le (date r) (to_datetime_date e)
                  \<and> (x \<longrightarrow> map_option weekday (date r) \<noteq> Some 4)) (rows df)
   \<and> (\<forall>r \<in> set (rows df). \<forall>t a b. date r = Some t \<longrightarrow>
         (r \<in> set (rows (df_view df (Day a) (Day b) x)) \<longleftrightarrow>
            a * ns_per_day \<le> t \<and> t \<le> b * ns_per_day \<and> (x \<longrightarrow> weekday t \<noteq> 4)))
   \<and> (\<forall>r \<in> set (rows df). date r = None \<longrightarrow> r \<notin> set (rows (df_view df s e x)))
   \<and> (\<forall>d. weekday (d * ns_per_day) = (d + 3) mod 7)
   \<and> weekday (19727 * ns_per_day) = 4"
proof -
  have w: "weekday (d * ns_per_day) = (d + 3) mod 7" for d
    by (simp add: weekday_def ns_per_day_def)
  show ?thesis
    by (auto simp: df_view_eq w)
qed

theorem df_view_keeps_exactly_witness:
  "rows (df_view week (Day 19726) (Day 19730) True) =
     [day () (19726 * ns_per_day) 100 101, day () (19730 * ns_per_day) 100 103]"
  using df_view_keeps_exactly [of week "Day 19726" "Day 19730" True]
  by (simp add: week_def table_def day_def weekday_def ns_per_day_def)

section \<open>Properties of the collector\<close>

subsection \<open>Auxiliary facts\<close>







lemma name_literals:
  "''top1_volume_'' @ str_int y @ ''.xlsx'' = xlsx_name ''top1_volume'' y"
  "''top1_value_'' @ str_int y @ ''.xlsx'' = xlsx_name ''top1_value'' y"
  by (simp_all add: xlsx_name_def)

lemma names_apart: "xlsx_name ''top1_volume'' y \<noteq> xlsx_name ''top1_value'' y'"
  by (simp add: xlsx_name_def)

lemma group_rows:
  "filter (\<lambda>r. year r = Some y) (map (\<lambda>r. r\<lparr>year := Some (dt_year (date r))\<rparr>) df_final)
     = map (\<lambda>r. r\<lparr>year := Some (dt_year (date r))\<rparr>) (filter (\<lambda>r. dt_year (date r) = y) df_final)"
  by (induction df_final) auto

lemma written_mset: "mset (written df_final y k) = mset (partition_of df_final y k)"
proof -
  let ?g = "\<lambda>r :: top_row. r\<lparr>year := Some (dt_year (date r))\<rparr>"
  let ?xs = "map ?g (filter (\<lambda>r. dt_year (date r) = y) df_final)"
  have "mset (written df_final y k) = mset (filter (\<lambda>r. rank_type (other r) = k) ?xs)"
    unfolding written_def group_rows by (simp only: mset_filter mset_sort)
  also have "filter (\<lambda>r. rank_type (other r) = k) ?xs = partition_of df_final y k"
    by (simp add: partition_of_def filter_map comp_def)
  finally show ?thesis .
qed

lemma written_empty: "written df_final y k = [] \<longleftrightarrow> partition_of df_final y k = []"
proof -
  have "(written df_final y k = []) = (mset (written df_final y k) = {#})"
    by (simp only: mset_zero_iff)
  also have "\<dots> = (mset (partition_of df_final y k) = {#})" by (simp only: written_mset)
  also have "\<dots> = (partition_of df_final y k = [])" by (simp only: mset_zero_iff)
  finally show ?thesis .
qed

lemma save_year_eq:
  "save_year (y, filter (\<lambda>r. year r = Some y) (map (\<lambda>r. r\<lparr>year := Some (dt_year (date r))\<rparr>) df_final)) =
     (if y < 2000 \<or> y > 2025 then []
      else (if written df_final y ''VOLUME_TOP'' \<noteq> []
            then [(xlsx_name ''top1_volume'' y, written df_final y ''VOLUME_TOP'')] else [])
         @ (if written df_final y ''VALUE_TOP'' \<noteq> []
            then [(xlsx_name ''top1_value'' y, written df_final y ''VALUE_TOP'')] else []))"
  unfolding save_year_def name_literals written_def
  by (simp only: Let_def split_conv)

lemma save_year_names:
  assumes "(nm, c) \<in> set (save_year (y, filter (\<lambda>r. year r = Some y)
                                  (map (\<lambda>r. r\<lparr>year := Some (dt_year (date r))\<rparr>) df_final)))"
  shows "2000 \<le> y \<and> y \<le> 2025 \<and> c \<noteq> []
     \<and> ((nm = xlsx_name ''top1_volume'' y \<and> c = written df_final y ''VOLUME_TOP'')
        \<or> (nm = xlsx_name ''top1_value'' y \<and> c = written df_final y ''VALUE_TOP''))"
  using assms unfolding save_year_eq by (auto split: if_splits)

lemma save_year_has:
  assumes "2000 \<le> y" "y \<le> 2025" "written df_final y k \<noteq> []"
  shows "k = ''VOLUME_TOP'' \<Longrightarrow>
           (xlsx_name ''top1_volume'' y, written df_final y k) \<in> set (save_year (y, filter (\<lambda>r. year r = Some y)
                                  (map (\<lambda>r. r\<lparr>year := Some (dt_year (date r))\<rparr>) df_final)))"
    and "k = ''VALUE_TOP'' \<Longrightarrow>
           (xlsx_name ''top1_value'' y, written df_final y k) \<in> set (save_year (y, filter (\<lambda>r. year r = Some y)
                                  (map (\<lambda>r. r\<lparr>year := Some (dt_year (date r))\<rparr>) df_final)))"
  using assms unfolding save_year_eq by auto

lemma save_year_distinct:
  "distinct (map fst (save_year (y, filter (\<lambda>r. year r = Some y)
                                  (map (\<lambda>r. r\<lparr>year := Some (dt_year (date r))\<rparr>) df_final))))"
  unfolding save_year_eq by (simp add: names_apart)

lemma group_years:
  "set (sort (remdups (List.map_filter year (map (\<lambda>r. r\<lparr>year := Some (dt_year (date r))\<rparr>) df_final))))
     = (\<lambda>r. dt_year (date r)) ` set (df_final :: top_row list)"
  by (auto simp: map_filter_def image_iff)

lemma partition_year:
  "partition_of df_final y k \<noteq> [] \<Longrightarrow> y \<in> (\<lambda>r. dt_year (date r)) ` set df_final"
  by (auto simp: partition_of_def filter_empty_conv)

lemma save_files_eq:
  "save_files df_final =
     concat (map (\<lambda>y. save_year (y, filter (\<lambda>r. year r = Some y)
                                     (map (\<lambda>r. r\<lparr>year := Some (dt_year (date r))\<rparr>) df_final)))
               (sort (remdups (List.map_filter year
                  (map (\<lambda>r. r\<lparr>year := Some (dt_year (date r))\<rparr>) df_final)))))"
  by (simp add: save_files_def groupby_year_def Let_def comp_def)

lemma save_files_mem:
  "(nm, c) \<in> set (save_files df_final) \<longleftrightarrow>
     (\<exists>y \<in> (\<lambda>r. dt_year (date r)) ` set df_final.
        (nm, c) \<in> set (save_year (y, filter (\<lambda>r. year r = Some y)
                                     (map (\<lambda>r. r\<lparr>year := Some (dt_year (date r))\<rparr>) df_final))))"
  unfolding save_files_eq set_concat set_map group_years[symmetric] by blast

lemma concat_names_distinct:
  assumes "distinct ys"
    and "\<And>y. distinct (map fst (G y))"
    and "\<And>y nm. nm \<in> fst ` set (G y) \<Longrightarrow> nm = xlsx_name ''top1_volume'' y \<or> nm = xlsx_name ''top1_value'' y"
  shows "distinct (map fst (concat (map G ys)))"
  using assms(1)
proof (induction ys)
  case Nil
  then show ?case by simp
next
  case (Cons y ys)
  have "fst ` set (G y) \<inter> fst ` set (concat (map G ys)) = {}"
  proof (rule ccontr)
    assume "fst ` set (G y) \<inter> fst ` set (concat (map G ys)) \<noteq> {}"
    then obtain nm y' where a: "nm \<in> fst ` set (G y)" and y': "y' \<in> set ys" and b: "nm \<in> fst ` set (G y')"
      by auto
    from assms(3)[OF a] assms(3)[OF b] have "y = y'"
      using names_apart[of y y'] names_apart[of y' y] by auto
    with y' Cons.prems show False by simp
  qed
  with Cons assms(2)[of y] show ?case by simp
qed

lemma dt_year_midnight: "dt_year (d * ns_per_day) = year_of_days d"
  by (simp add: dt_year_def ns_per_day_def)

lemma year_examples: "year_of_days 19727 = 2024" "year_of_days 10956 = 1999"
  by code_simp+

subsection \<open>Two records for each day\<close>



subsection \<open>One file for each year and rank type\<close>

text \<open>
  C8. Each file written is named top1_volume_year.xlsx or top1_value_year.xlsx for a year
  from 2000 to 2025, is not empty, and holds exactly the rows of that year with the rank
  type VOLUME_TOP or VALUE_TOP; no name is written twice; and the file of a year and a rank
  type is written exactly when the year lies in the range and the partition has a row.
\<close>

theorem save_files_partitions:
  "(\<forall>nm c. (nm, c) \<in> set (save_files df_final) \<longrightarrow>
       (\<exists>y. 2000 \<le> y \<and> y \<le> 2025 \<and> c \<noteq> []
          \<and> ((nm = xlsx_name ''top1_volume'' y \<and> mset c = mset (partition_of df_final y ''VOLUME_TOP''))
             \<or> (nm = xlsx_name ''top1_value'' y \<and> mset c = mset (partition_of df_final y ''VALUE_TOP'')))))
   \<and> distinct (map fst (save_files df_final))
   \<and> (\<forall>y. (xlsx_name ''top1_volume'' y \<in> fst ` set (save_files df_final) \<longleftrightarrow>
             2000 \<le> y \<and> y \<le> 2025 \<and> partition_of df_final y ''VOLUME_TOP'' \<noteq> [])
        \<and> (xlsx_name ''top1_value'' y \<in> fst ` set (save_files df_final) \<longleftrightarrow>
             2000 \<le> y \<and> y \<le> 2025 \<and> partition_of df_final y ''VALUE_TOP'' \<noteq> []))
   \<and> (\<forall>y. xlsx_name ''top1_volume'' y = ''top1_volume_'' @ str_int y @ ''.xlsx''
        \<and> xlsx_name ''top1_value'' y = ''top1_value_'' @ str_int y @ ''.xlsx'')"
proof -
  let ?G = "\<lambda>y. save_year (y, filter (\<lambda>r. year r = Some y)
                                     (map (\<lambda>r. r\<lparr>year := Some (dt_year (date r))\<rparr>) df_final))"
  have names: "2000 \<le> y \<and> y \<le> 2025 \<and> c \<noteq> []
     \<and> ((nm = xlsx_name ''top1_volume'' y \<and> c = written df_final y ''VOLUME_TOP'')
        \<or> (nm = xlsx_name ''top1_value'' y \<and> c = written df_final y ''VALUE_TOP''))"
    if "(nm, c) \<in> set (?G y)" for nm c y
    using that by (rule save_year_names)
  have 1: "\<forall>nm c. (nm, c) \<in> set (save_files df_final) \<longrightarrow>
       (\<exists>y. 2000 \<le> y \<and> y \<le> 2025 \<and> c \<noteq> []
          \<and> ((nm = xlsx_name ''top1_volume'' y \<and> mset c = mset (partition_of df_final y ''VOLUME_TOP''))
             \<or> (nm = xlsx_name ''top1_value'' y \<and> mset c = mset (partition_of df_final y ''VALUE_TOP''))))"
  proof (intro allI impI)
    fix nm c assume "(nm, c) \<in> set (save_files df_final)"
    then obtain y where "(nm, c) \<in> set (?G y)" unfolding save_files_mem by blast
    from names[OF this] show "\<exists>y. 2000 \<le> y \<and> y \<le> 2025 \<and> c \<noteq> []
          \<and> ((nm = xlsx_name ''top1_volume'' y \<and> mset c = mset (partition_of df_final y ''VOLUME_TOP''))
             \<or> (nm = xlsx_name ''top1_value'' y \<and> mset c = mset (partition_of df_final y ''VALUE_TOP'')))"
      using written_mset[of df_final y] by (intro exI[of _ y]) auto
  qed
  have 2: "distinct (map fst (save_files df_final))"
    unfolding save_files_eq
  proof (rule concat_names_distinct)
    show "distinct (sort (remdups (List.map_filter year
                  (map (\<lambda>r. r\<lparr>year := Some (dt_year (date r))\<rparr>) df_final))))"
      by simp
    show "distinct (map fst (?G y))" for y by (rule save_year_distinct)
    show "nm = xlsx_name ''top1_volume'' y \<or> nm = xlsx_name ''top1_value'' y"
      if "nm \<in> fst ` set (?G y)" for y nm
    proof -
      from that obtain c where "(nm, c) \<in> set (?G y)" by auto
      from names[OF this] show ?thesis by blast
    qed
  qed
  have v: "xlsx_name ''top1_volume'' y \<in> fst ` set (save_files df_final) \<longleftrightarrow>
             2000 \<le> y \<and> y \<le> 2025 \<and> partition_of df_final y ''VOLUME_TOP'' \<noteq> []" for y
  proof (rule iffI)
    assume "xlsx_name ''top1_volume'' y \<in> fst ` set (save_files df_final)"
    then obtain c where "(xlsx_name ''top1_volume'' y, c) \<in> set (save_files df_final)"
      by auto
    then obtain y' where "(xlsx_name ''top1_volume'' y, c) \<in> set (?G y')"
      unfolding save_files_mem by blast
    from names[OF this] show "2000 \<le> y \<and> y \<le> 2025 \<and> partition_of df_final y ''VOLUME_TOP'' \<noteq> []"
      using names_apart[of y y'] by (auto simp: written_empty)
  next
    assume a: "2000 \<le> y \<and> y \<le> 2025 \<and> partition_of df_final y ''VOLUME_TOP'' \<noteq> []"
    then have w: "written df_final y ''VOLUME_TOP'' \<noteq> []" by (simp add: written_empty)
    from a have y: "y \<in> (\<lambda>r. dt_year (date r)) ` set df_final" by (auto dest: partition_year)
    from save_year_has(1)[OF _ _ w] a
    have "(xlsx_name ''top1_volume'' y, written df_final y ''VOLUME_TOP'') \<in> set (?G y)" by simp
    with y have "(xlsx_name ''top1_volume'' y, written df_final y ''VOLUME_TOP'') \<in> set (save_files df_final)"
      unfolding save_files_mem by blast
    then show "xlsx_name ''top1_volume'' y \<in> fst ` set (save_files df_final)" by force
  qed
  have w: "xlsx_name ''top1_value'' y \<in> fst ` set (save_files df_final) \<longleftrightarrow>
             2000 \<le> y \<and> y \<le> 2025 \<and> partition_of df_final y ''VALUE_TOP'' \<noteq> []" for y
  proof (rule iffI)
    assume "xlsx_name ''top1_value'' y \<in> fst ` set (save_files df_final)"
    then obtain c where "(xlsx_name ''top1_value'' y, c) \<in> set (save_files df_final)"
      by auto
    then obtain y' where "(xlsx_name ''top1_value'' y, c) \<in> set (?G y')"
      unfolding save_files_mem by blast
    from names[OF this] show "2000 \<le> y \<and> y \<le> 2025 \<and> partition_of df_final y ''VALUE_TOP'' \<noteq> []"
      using names_apart[of y' y] by (auto simp: written_empty)
  next
    assume a: "2000 \<le> y \<and> y \<le> 2025 \<and> partition_of df_final y ''VALUE_TOP'' \<noteq> []"
    then have w: "written df_final y ''VALUE_TOP'' \<noteq> []" by (simp add: written_empty)
    from a have y: "y \<in> (\<lambda>r. dt_year (date r)) ` set df_final" by (auto dest: partition_year)
    from save_year_has(2)[OF _ _ w] a
    have "(xlsx_name ''top1_value'' y, written df_final y ''VALUE_TOP'') \<in> set (?G y)" by simp
    with y have "(xlsx_name ''top1_value'' y, written df_final y ''VALUE_TOP'') \<in> set (save_files df_final)"
      unfolding save_files_mem by blast
    then show "xlsx_name ''top1_value'' y \<in> fst ` set (save_files df_final)" by force
  qed
  have 4: "\<forall>y. xlsx_name ''top1_volume'' y = ''top1_volume_'' @ str_int y @ ''.xlsx''
        \<and> xlsx_name ''top1_value'' y = ''top1_value_'' @ str_int y @ ''.xlsx''"
    by (simp add: xlsx_name_def)
  from v w have t3: "\<forall>y. (xlsx_name ''top1_volume'' y \<in> fst ` set (save_files df_final) \<longleftrightarrow>
             2000 \<le> y \<and> y \<le> 2025 \<and> partition_of df_final y ''VOLUME_TOP'' \<noteq> [])
        \<and> (xlsx_name ''top1_value'' y \<in> fst ` set (save_files df_final) \<longleftrightarrow>
             2000 \<le> y \<and> y \<le> 2025 \<and> partition_of df_final y ''VALUE_TOP'' \<noteq> [])"
    by (intro allI conjI)
  show ?thesis by (intro conjI 1 2 t3 4)
qed

theorem save_files_partitions_witness:
  "xlsx_name ''top1_volume'' 2024 \<in> fst ` set (save_files final_2024)
   \<and> xlsx_name ''top1_value'' 2024 \<notin> fst ` set (save_files final_2024)
   \<and> xlsx_name ''top1_volume'' 1999 \<notin> fst ` set (save_files final_2024)"
proof -
  note T = save_files_partitions [of final_2024, THEN conjunct2, THEN conjunct2, THEN conjunct1, rule_format]
  have a: "partition_of final_2024 2024 ''VOLUME_TOP'' \<noteq> []"
    and b: "partition_of final_2024 2024 ''VALUE_TOP'' = []"
    by (simp_all add: partition_of_def final_2024_def top_record_def dt_year_midnight year_examples)
  show ?thesis
    using T [of 2024] T [of 1999] a b by simp
qed

end
